theory Spec2Isabelle
  imports Complex_Main
begin

section \<open>Conversion of properties into a tensor map (equisolve.utils.convert)\<close>

text \<open>
  The converter \<^verbatim>\<open>properties_to_tensormap\<close> of \<^verbatim>\<open>src/equisolve/utils/convert.py\<close>
  is embedded as a total function into \<open>py_error + tensor_map\<close>: every Python exception
  that the body can raise is an \<open>Inl\<close> branch of the model.

  The function works on numpy arrays and on the container classes of equistore. Both
  libraries are outside the repository; the operations the converter calls are modelled
  with the behaviour of the libraries, errors included, as far as the converter's
  results depend on it:
  \<^item> a numpy array is its shape together with its elements in row-major order;
  \<^item> \<^verbatim>\<open>Labels\<close> accepts an array of length 0, which it stores as no entry at all, and
    otherwise only a two-dimensional array with one column per name;
  \<^item> \<^verbatim>\<open>TensorBlock\<close> accepts only values whose shape agrees with the number of
    samples, of entries of each component and of properties.
  Element types, the 32-bit storage of label values and the check that a label name is
  an identifier are not modelled: scalars are only moved around, label values are
  unbounded integers (they are indices below the number of structures and atoms), and
  \<^verbatim>\<open>property_name\<close> is taken to be a name that \<^verbatim>\<open>Labels\<close> accepts.

  The adapter \<^verbatim>\<open>ase_to_tensormap\<close> of the same file is not embedded: in lines 49 to 51
  a \<^verbatim>\<open>raise\<close> statement stands as the \<^verbatim>\<open>else\<close> operand of a conditional expression,
  which is not Python, so the function has no behaviour to translate.
\<close>

subsection \<open>Exceptions\<close>

datatype py_error =
    NotImplementedError
  | ValueError
  | IndexError
  | TypeError
  | EquistoreError

subsection \<open>numpy arrays\<close>

record 'a ndarray =
  shape :: "nat list"
  data :: "'a list"

text \<open>\<^verbatim>\<open>a.size\<close>: the number of elements announced by the shape.\<close>

definition size_nd :: "'a ndarray \<Rightarrow> nat" where
  "size_nd a = prod_list (shape a)"

text \<open>\<^verbatim>\<open>np.asarray(xs)\<close> for a Python list of scalars.\<close>

definition asarray :: "'a list \<Rightarrow> 'a ndarray" where
  "asarray xs = \<lparr>shape = [length xs], data = xs\<rparr>"

text \<open>\<^verbatim>\<open>np.arange(n)\<close>.\<close>

definition arange :: "nat \<Rightarrow> int ndarray" where
  "arange n = \<lparr>shape = [n], data = map int [0..<n]\<rparr>"

text \<open>
  \<^verbatim>\<open>np.array(rows)\<close> for a Python list of rows of equal length, as the list
  comprehensions of the converter build them. The empty list gives the one-dimensional
  array of shape \<open>(0,)\<close>.
\<close>

definition np_array :: "'a list list \<Rightarrow> 'a ndarray" where
  "np_array rs =
     (case rs of
        [] \<Rightarrow> \<lparr>shape = [0], data = []\<rparr>
      | r # _ \<Rightarrow> \<lparr>shape = [length rs, length r], data = concat rs\<rparr>)"

text \<open>
  \<^verbatim>\<open>a.reshape(-1, d1, ..., dk)\<close>: the leading dimension is inferred from the size; numpy
  raises \<^verbatim>\<open>ValueError\<close> when the size is not a multiple of \<open>d1 * ... * dk\<close>.
\<close>

definition reshape :: "'a ndarray \<Rightarrow> nat list \<Rightarrow> py_error + 'a ndarray" where
  "reshape a ds =
     (let k = prod_list ds in
      if k = 0 \<or> size_nd a mod k \<noteq> 0 then Inl ValueError
      else Inr \<lparr>shape = (size_nd a div k) # ds, data = data a\<rparr>)"

text \<open>
  \<^verbatim>\<open>np.concatenate(arrs, axis=0)\<close>: \<^verbatim>\<open>ValueError\<close> for an empty sequence, for a
  zero-dimensional array, and when the arrays disagree in a dimension other than the
  first.
\<close>

definition concatenate :: "'a ndarray list \<Rightarrow> py_error + 'a ndarray" where
  "concatenate arrs =
     (case arrs of
        [] \<Rightarrow> Inl ValueError
      | a # _ \<Rightarrow>
          if list_ex (\<lambda>b. shape b = []) arrs then Inl ValueError
          else if list_ex (\<lambda>b. tl (shape b) \<noteq> tl (shape a)) arrs then Inl ValueError
          else Inr \<lparr>shape = sum_list (map (\<lambda>b. hd (shape b)) arrs) # tl (shape a),
                    data = concat (map data arrs)\<rparr>)"

text \<open>\<^verbatim>\<open>a.shape[i]\<close>: indexing a tuple out of range raises \<^verbatim>\<open>IndexError\<close>.\<close>

definition shape_at :: "'a ndarray \<Rightarrow> nat \<Rightarrow> py_error + nat" where
  "shape_at a i = (if i < length (shape a) then Inr (shape a ! i) else Inl IndexError)"

text \<open>\<^verbatim>\<open>len(a)\<close>: the first dimension; \<^verbatim>\<open>TypeError\<close> for a zero-dimensional array.\<close>

definition len_nd :: "'a ndarray \<Rightarrow> py_error + nat" where
  "len_nd a = (case shape a of [] \<Rightarrow> Inl TypeError | n # _ \<Rightarrow> Inr n)"

subsection \<open>equistore containers\<close>

record labels =
  names :: "string list"
  rows :: "int list list"

text \<open>The first \<open>r\<close> rows of \<open>c\<close> entries each of a row-major element list.\<close>

fun to_rows :: "nat \<Rightarrow> nat \<Rightarrow> 'a list \<Rightarrow> 'a list list" where
  "to_rows 0 c xs = []"
| "to_rows (Suc r) c xs = take c xs # to_rows r c (drop c xs)"

text \<open>
  \<^verbatim>\<open>Labels(names, values)\<close>: values of length 0, such as \<^verbatim>\<open>np.array([])\<close> of shape
  \<open>(0,)\<close>, are taken as the array of shape \<open>(0, len(names))\<close> and give labels with no
  entry. Any other values must be a two-dimensional array with one column per name,
  otherwise \<^verbatim>\<open>ValueError\<close>.
\<close>

definition Labels :: "string list \<Rightarrow> int ndarray \<Rightarrow> py_error + labels" where
  "Labels ns arr =
     (if take 1 (shape arr) = [0] then Inr \<lparr>names = ns, rows = []\<rparr>
      else if length (shape arr) \<noteq> 2 \<or> shape arr ! 1 \<noteq> length ns then Inl ValueError
      else Inr \<lparr>names = ns, rows = to_rows (shape arr ! 0) (shape arr ! 1) (data arr)\<rparr>)"

text \<open>\<^verbatim>\<open>Labels.single()\<close>: one entry \<open>0\<close> under the name \<^verbatim>\<open>_\<close>.\<close>

definition Labels_single :: labels where
  "Labels_single = \<lparr>names = [''_''], rows = [[0]]\<rparr>"

datatype 'a tensor_block =
  Block (block_values: "'a ndarray")
        (block_samples: labels)
        (block_components: "labels list")
        (block_properties: labels)
        (block_gradients: "(string \<times> 'a tensor_block) list")

text \<open>
  \<^verbatim>\<open>TensorBlock(values, samples, components, properties)\<close>: the shape of the values
  must be (number of samples, entries of each component, number of properties);
  equistore raises its own error otherwise. A new block has no gradient.
\<close>

definition TensorBlock ::
  "'a ndarray \<Rightarrow> labels \<Rightarrow> labels list \<Rightarrow> labels \<Rightarrow> py_error + 'a tensor_block" where
  "TensorBlock v s cs p =
     (if shape v = length (rows s) # map (\<lambda>c. length (rows c)) cs @ [length (rows p)]
      then Inr (Block v s cs p [])
      else Inl EquistoreError)"

text \<open>
  \<^verbatim>\<open>block.add_gradient(parameter, gradient)\<close> mutates the block; the model returns the
  block with the gradient registered after the ones it already has.
\<close>

definition add_gradient :: "'a tensor_block \<Rightarrow> string \<Rightarrow> 'a tensor_block \<Rightarrow> 'a tensor_block" where
  "add_gradient b parameter g =
     Block (block_values b) (block_samples b) (block_components b) (block_properties b)
           (block_gradients b @ [(parameter, g)])"

text \<open>\<^verbatim>\<open>block.gradient(parameter)\<close>.\<close>

definition gradient :: "'a tensor_block \<Rightarrow> string \<Rightarrow> 'a tensor_block option" where
  "gradient b parameter = map_of (block_gradients b) parameter"

record 'a tensor_map =
  keys :: labels
  blocks :: "'a tensor_block list"

text \<open>\<^verbatim>\<open>TensorMap(keys, blocks)\<close>: one block per key.\<close>

definition TensorMap :: "labels \<Rightarrow> 'a tensor_block list \<Rightarrow> py_error + 'a tensor_map" where
  "TensorMap ks bs =
     (if length (rows ks) = length bs then Inr \<lparr>keys = ks, blocks = bs\<rparr>
      else Inl EquistoreError)"

subsection \<open>properties_to_tensormap\<close>

text \<open>
  Sequencing of steps that may raise: the first exception ends the evaluation, as it
  does in Python.
\<close>

fun bind_err :: "'e + 'a \<Rightarrow> ('a \<Rightarrow> 'e + 'b) \<Rightarrow> 'e + 'b" where
  "bind_err (Inl e) f = Inl e"
| "bind_err (Inr x) f = f x"

text \<open>Lines 110 to 115: the block of the values.\<close>

definition value_block :: "'a list \<Rightarrow> string \<Rightarrow> py_error + 'a tensor_block" where
  "value_block vals property_name =
     bind_err (reshape (asarray vals) [1]) (\<lambda>v.
     bind_err (reshape (arange (length vals)) [1]) (\<lambda>sv.
     bind_err (Labels [''structure''] sv) (\<lambda>s.
     bind_err (Labels [property_name] (np_array [[0]])) (\<lambda>p.
     TensorBlock v s [] p))))"

text \<open>\<^verbatim>\<open>Labels([name], np.arange(3).reshape(-1, 1))\<close>, the labels of a spatial direction.\<close>

definition direction_labels :: "string \<Rightarrow> py_error + labels" where
  "direction_labels name = bind_err (reshape (arange 3) [1]) (\<lambda>dv. Labels [name] dv)"

text \<open>
  Lines 138 to 142: the rows \<^verbatim>\<open>[s, s, a]\<close> of the list comprehension over the structures
  and the atoms of each structure; \<^verbatim>\<open>len(positions_gradients[s])\<close> is the first
  dimension of the array of structure \<open>s\<close>. The rows are built only after
  \<^verbatim>\<open>np.concatenate\<close> has accepted the arrays, so every array has a first dimension,
  and after the length check, so every index \<open>s\<close> is in range.
\<close>

definition atom_rows :: "nat \<Rightarrow> 'a ndarray list \<Rightarrow> int list list" where
  "atom_rows n_structures positions_gradients =
     concat (map (\<lambda>s. map (\<lambda>a. [int s, int s, int a])
                          [0..<hd (shape (positions_gradients ! s))])
                 [0..<n_structures])"

text \<open>
  Lines 118 to 151: the gradient block for \<^verbatim>\<open>positions_gradients\<close>, given the number of
  structures and the properties of the value block.
\<close>

definition positions_gradient ::
  "nat \<Rightarrow> 'a ndarray list \<Rightarrow> labels \<Rightarrow> py_error + 'a tensor_block" where
  "positions_gradient n_structures positions_gradients props =
     (if n_structures \<noteq> length positions_gradients then Inl ValueError
      else
      bind_err (concatenate positions_gradients) (\<lambda>gradient_values.
      bind_err (shape_at gradient_values 1) (\<lambda>ncols.
      if ncols \<noteq> 3 then Inl ValueError
      else
      bind_err (Labels [''sample'', ''structure'', ''atom'']
                  (np_array (atom_rows n_structures positions_gradients)))
        (\<lambda>position_gradient_samples.
      bind_err (reshape gradient_values [3, 1]) (\<lambda>v.
      bind_err (direction_labels ''direction'') (\<lambda>d.
      TensorBlock v position_gradient_samples [d] props))))))"

text \<open>
  Lines 155 to 185: the gradient block for \<^verbatim>\<open>cell_gradients\<close>. The message of the
  \<^verbatim>\<open>ValueError\<close> for a wrong shape is an f-string that reads \<^verbatim>\<open>shape[1]\<close> and
  \<^verbatim>\<open>shape[2]\<close>; Python evaluates it before the exception is built.
\<close>

definition cell_gradient ::
  "nat \<Rightarrow> 'a ndarray \<Rightarrow> labels \<Rightarrow> py_error + 'a tensor_block" where
  "cell_gradient n_structures cell_gradients props =
     bind_err (len_nd cell_gradients) (\<lambda>l.
     if n_structures \<noteq> l then Inl ValueError
     else
     let gradient_values = cell_gradients in
     if tl (shape gradient_values) \<noteq> [3, 3] then
       bind_err (shape_at gradient_values 1) (\<lambda>_.
       bind_err (shape_at gradient_values 2) (\<lambda>_.
       Inl ValueError))
     else
     bind_err (Labels [''sample''] (np_array (map (\<lambda>s. [int s]) [0..<n_structures])))
       (\<lambda>cell_gradient_samples.
     bind_err (direction_labels ''direction_1'') (\<lambda>d1.
     bind_err (direction_labels ''direction_2'') (\<lambda>d2.
     bind_err (reshape gradient_values [3, 3, 1]) (\<lambda>v.
     TensorBlock v cell_gradient_samples [d1, d2] props)))))"

text \<open>
  The whole function. \<^verbatim>\<open>positions_gradients\<close> is a list of arrays, \<^verbatim>\<open>cell_gradients\<close> an
  array-like, given as the array \<^verbatim>\<open>np.asarray\<close> makes of it; \<open>None\<close> is Python's
  \<^verbatim>\<open>None\<close>. The gradient blocks take \<^verbatim>\<open>block.properties\<close> as their properties.
\<close>

definition properties_to_tensormap ::
  "'a list \<Rightarrow> 'a ndarray list option \<Rightarrow> 'a ndarray option \<Rightarrow> bool \<Rightarrow> string
     \<Rightarrow> py_error + 'a tensor_map" where
  "properties_to_tensormap vals positions_gradients cell_gradients
       is_structure_property property_name =
     (if \<not> is_structure_property then Inl NotImplementedError
      else
      let n_structures = length vals in
      bind_err (value_block vals property_name) (\<lambda>block.
      bind_err (case positions_gradients of
                  None \<Rightarrow> Inr block
                | Some pg \<Rightarrow>
                    bind_err (positions_gradient n_structures pg (block_properties block))
                      (\<lambda>g. Inr (add_gradient block ''positions'' g)))
        (\<lambda>block1.
      bind_err (case cell_gradients of
                  None \<Rightarrow> Inr block1
                | Some cg \<Rightarrow>
                    bind_err (cell_gradient n_structures cg (block_properties block1))
                      (\<lambda>g. Inr (add_gradient block1 ''cell'' g)))
        (\<lambda>block2.
      TensorMap Labels_single [block2]))))"

subsection \<open>rmse\<close>

text \<open>
  The metric \<^verbatim>\<open>rmse\<close> of \<^verbatim>\<open>equisolve.utils\<close> is called by
  \<^verbatim>\<open>tests/equisolve_tests/utils/metrics.py\<close>, but the module that defines it is not
  among the source files. Its model follows section 4.3 of the specification, over the
  real numbers.
\<close>

text \<open>Modelled from the spec: the error kinds of \<^verbatim>\<open>rmse\<close> (missing from the sources),
  as section 7 of the specification names them.\<close>

datatype metric_error = KeyMismatch | ShapeMismatch | UnknownParameter

text \<open>
  Modelled from the spec: \<^verbatim>\<open>select\<close> of \<^verbatim>\<open>rmse\<close> (the function is missing from the
  sources) resolves \<^verbatim>\<open>"values"\<close> to the values of the block and any other string to
  the values of the gradient of that name, failing with \<^verbatim>\<open>UnknownParameter\<close> when the
  block has no such gradient.
\<close>

definition select :: "real tensor_block \<Rightarrow> string \<Rightarrow> metric_error + real ndarray" where
  "select b parameter_key =
     (if parameter_key = ''values'' then Inr (block_values b)
      else case gradient b parameter_key of
             None \<Rightarrow> Inl UnknownParameter
           | Some g \<Rightarrow> Inr (block_values g))"

text \<open>Modelled from the spec: \<^verbatim>\<open>flatten\<close> of \<^verbatim>\<open>rmse\<close> (missing from the sources), the
  elements of an array in row-major order.\<close>

definition flatten :: "'a ndarray \<Rightarrow> 'a list" where
  "flatten a = data a"

text \<open>Modelled from the spec: \<^verbatim>\<open>mean\<close> of \<^verbatim>\<open>rmse\<close> (missing from the sources), the sum
  of the elements divided by their number. An empty array has no mean: the result is
  \<open>None\<close>, which stands for the missing value (the \<^verbatim>\<open>nan\<close> of a floating-point mean
  over no element).\<close>

definition mean :: "real list \<Rightarrow> real option" where
  "mean xs = (if xs = [] then None else Some (sum_list xs / real (length xs)))"

text \<open>
  Modelled from the spec: the error of one key of \<^verbatim>\<open>rmse\<close> (missing from the sources),
  \<^verbatim>\<open>sqrt(mean((flatten(select(y_true[k])) - flatten(select(y_pred[k])))^2))\<close>, failing
  with \<^verbatim>\<open>ShapeMismatch\<close> when the two selected arrays differ in their number of
  elements. The scalar is \<open>None\<close> when the mean has no value.
\<close>

definition rmse_block ::
  "real tensor_block \<Rightarrow> real tensor_block \<Rightarrow> string \<Rightarrow> metric_error + real option" where
  "rmse_block t p parameter_key =
     bind_err (select t parameter_key) (\<lambda>a.
     bind_err (select p parameter_key) (\<lambda>b.
     if length (flatten a) \<noteq> length (flatten b) then Inl ShapeMismatch
     else Inr (map_option sqrt
                 (mean (map (\<lambda>(x, y). (x - y)\<^sup>2) (zip (flatten a) (flatten b)))))))"

text \<open>Modelled from the spec: the block of a tensor map under a key (the container is
  external, \<^verbatim>\<open>rmse\<close> is missing from the sources).\<close>

definition block_of :: "'a tensor_map \<Rightarrow> int list \<Rightarrow> 'a tensor_block option" where
  "block_of m k = map_of (zip (rows (keys m)) (blocks m)) k"

text \<open>The results of a list of steps, or the first error among them.\<close>

fun collect :: "('e + 'a) list \<Rightarrow> 'e + 'a list" where
  "collect [] = Inr []"
| "collect (r # rs) = bind_err r (\<lambda>x. bind_err (collect rs) (\<lambda>xs. Inr (x # xs)))"

text \<open>
  Modelled from the spec: \<^verbatim>\<open>rmse\<close> (missing from the sources) fails with
  \<^verbatim>\<open>KeyMismatch\<close> when the key sets of the two maps differ, and otherwise returns the
  error of every key, in the order of the keys of \<^verbatim>\<open>y_true\<close>.
\<close>

definition rmse ::
  "real tensor_map \<Rightarrow> real tensor_map \<Rightarrow> string \<Rightarrow> metric_error + real option list" where
  "rmse y_true y_pred parameter_key =
     (if set (rows (keys y_true)) \<noteq> set (rows (keys y_pred)) then Inl KeyMismatch
      else collect (map (\<lambda>(k, t). case block_of y_pred k of
                                     None \<Rightarrow> Inl KeyMismatch
                                   | Some p \<Rightarrow> rmse_block t p parameter_key)
                        (zip (rows (keys y_true)) (blocks y_true))))"

section \<open>Properties of the library operations\<close>

lemma to_rows_singletons: "to_rows (length xs) 1 xs = map (\<lambda>x. [x]) xs"
  by (induction xs) simp_all

lemma to_rows_concat:
  "\<forall>r\<in>set rs. length r = c \<Longrightarrow> to_rows (length rs) c (concat rs) = rs"
  by (induction rs) simp_all

lemma direction_labels_eq:
  "direction_labels name = Inr \<lparr>names = [name], rows = [[0], [1], [2]]\<rparr>"
  using to_rows_singletons [of "map int [0..<3]"]
  by (simp add: direction_labels_def reshape_def arange_def size_nd_def Labels_def upt_rec
      numeral_3_eq_3)

lemma bind_err_Inr_iff:
  "bind_err m f = Inr y \<longleftrightarrow> (\<exists>x. m = Inr x \<and> f x = Inr y)"
  by (cases m) simp_all

lemma Labels_np_array:
  assumes "\<forall>r\<in>set rs. length r = length ns"
  shows "Labels ns (np_array rs) = Inr \<lparr>names = ns, rows = rs\<rparr>"
proof (cases rs)
  case Nil
  then show ?thesis by (simp add: Labels_def np_array_def)
next
  case (Cons r rest)
  have "to_rows (length rs) (length ns) (concat rs) = rs"
    using assms by (rule to_rows_concat)
  with Cons assms show ?thesis by (simp add: Labels_def np_array_def)
qed

lemma length_atom_rows:
  "length (atom_rows (length pg) pg) = sum_list (map (\<lambda>b. hd (shape b)) pg)"
proof -
  have "map (\<lambda>s. hd (shape (pg ! s))) [0..<length pg] = map (\<lambda>b. hd (shape b)) pg"
    using map_nth [of pg] map_map [of "\<lambda>b. hd (shape b)" "(!) pg" "[0..<length pg]"]
    by (simp only: comp_def)
  then show ?thesis
    by (simp add: atom_rows_def length_concat comp_def)
qed

lemma atom_rows_width: "\<forall>r\<in>set (atom_rows n pg). length r = 3"
  by (auto simp: atom_rows_def)

lemma concatenate_Inr:
  assumes "concatenate arrs = Inr gv"
  shows "arrs \<noteq> []"
    and "shape gv = sum_list (map (\<lambda>b. hd (shape b)) arrs) # tl (shape (hd arrs))"
    and "data gv = concat (map data arrs)"
  using assms by (auto simp: concatenate_def split: list.splits if_splits)

lemma Labels_atom_rows:
  "Labels [''sample'', ''structure'', ''atom''] (np_array (atom_rows m pg)) =
      Inr \<lparr>names = [''sample'', ''structure'', ''atom''], rows = atom_rows m pg\<rparr>"
  by (rule Labels_np_array) (simp add: atom_rows_width)

lemma positions_gradient_Inr:
  assumes "positions_gradient n pg props = Inr g"
  shows "g = Block \<lparr>shape = [sum_list (map (\<lambda>b. hd (shape b)) pg), 3, 1],
                     data = concat (map data pg)\<rparr>
                   \<lparr>names = [''sample'', ''structure'', ''atom''], rows = atom_rows n pg\<rparr>
                   [\<lparr>names = [''direction''], rows = [[0], [1], [2]]\<rparr>]
                   props []"
    and "n = length pg" and "pg \<noteq> []"
proof -
  let ?s = "\<lparr>names = [''sample'', ''structure'', ''atom''], rows = atom_rows n pg\<rparr>"
  let ?d = "\<lparr>names = [''direction''], rows = [[0], [1], [2]]\<rparr>"
  from assms show n: "n = length pg"
    by (auto simp: positions_gradient_def split: if_splits)
  from assms have "\<exists>gv v. concatenate pg = Inr gv \<and> reshape gv [3, 1] = Inr v
      \<and> TensorBlock v ?s [?d] props = Inr g"
    by (auto simp: positions_gradient_def bind_err_Inr_iff Labels_atom_rows
        direction_labels_eq split: if_splits)
  then obtain gv v where gv: "concatenate pg = Inr gv" and v: "reshape gv [3, 1] = Inr v"
    and tb: "TensorBlock v ?s [?d] props = Inr g"
    by blast
  from gv show "pg \<noteq> []" by (rule concatenate_Inr)
  from v have dv: "data v = data gv" and sv0: "tl (shape v) = [3, 1]"
    by (auto simp: reshape_def Let_def split: if_splits)
  from tb have g: "g = Block v ?s [?d] props []"
    and sv: "hd (shape v) = length (atom_rows n pg)"
    by (auto simp: TensorBlock_def split: if_splits)
  from sv sv0 have "shape v = [length (atom_rows n pg), 3, 1]"
    by (cases "shape v") simp_all
  then have "v = \<lparr>shape = [sum_list (map (\<lambda>b. hd (shape b)) pg), 3, 1],
                     data = concat (map data pg)\<rparr>"
    using dv concatenate_Inr(3) [OF gv] length_atom_rows [of pg] n by simp
  with g show "g = Block \<lparr>shape = [sum_list (map (\<lambda>b. hd (shape b)) pg), 3, 1],
                     data = concat (map data pg)\<rparr> ?s [?d] props []" by simp
qed

lemma value_block_eq:
  "value_block vals property_name =
     Inr (Block \<lparr>shape = [length vals, 1], data = vals\<rparr>
                \<lparr>names = [''structure''], rows = map (\<lambda>i. [int i]) [0..<length vals]\<rparr>
                []
                \<lparr>names = [property_name], rows = [[0]]\<rparr>
                [])"
  using to_rows_singletons [of "map int [0..<length vals]"]
  by (simp add: value_block_def reshape_def asarray_def arange_def size_nd_def Labels_def
      np_array_def TensorBlock_def comp_def)

lemma Labels_sample_rows:
  "Labels [''sample''] (np_array (map (\<lambda>s. [int s]) [0..<n])) =
      Inr \<lparr>names = [''sample''], rows = map (\<lambda>s. [int s]) [0..<n]\<rparr>"
  using Labels_np_array [of "map (\<lambda>s. [int s]) [0..<n]" "[''sample'']"] by simp

lemma cell_gradient_Inr:
  assumes "cell_gradient n cg props = Inr g"
  shows "g = Block \<lparr>shape = [n, 3, 3, 1], data = data cg\<rparr>
                   \<lparr>names = [''sample''], rows = map (\<lambda>s. [int s]) [0..<n]\<rparr>
                   [\<lparr>names = [''direction_1''], rows = [[0], [1], [2]]\<rparr>,
                    \<lparr>names = [''direction_2''], rows = [[0], [1], [2]]\<rparr>]
                   props []"
    and "shape cg = [n, 3, 3]"
proof -
  let ?s = "\<lparr>names = [''sample''], rows = map (\<lambda>s. [int s]) [0..<n]\<rparr>"
  let ?d1 = "\<lparr>names = [''direction_1''], rows = [[0], [1], [2]]\<rparr>"
  let ?d2 = "\<lparr>names = [''direction_2''], rows = [[0], [1], [2]]\<rparr>"
  from assms obtain l where l: "len_nd cg = Inr l"
    by (cases "len_nd cg") (simp_all add: cell_gradient_def)
  with assms have nl: "n = l"
    by (auto simp: cell_gradient_def split: if_splits)
  from assms l nl have tl: "tl (shape cg) = [3, 3]"
    by (auto simp: cell_gradient_def bind_err_Inr_iff split: if_splits)
  from l nl tl show sh: "shape cg = [n, 3, 3]"
    by (cases "shape cg") (simp_all add: len_nd_def)
  from assms l nl tl have "\<exists>v. reshape cg [3, 3, 1] = Inr v
      \<and> TensorBlock v ?s [?d1, ?d2] props = Inr g"
    by (auto simp: cell_gradient_def bind_err_Inr_iff Labels_sample_rows
        direction_labels_eq split: if_splits)
  then obtain v where v: "reshape cg [3, 3, 1] = Inr v"
    and tb: "TensorBlock v ?s [?d1, ?d2] props = Inr g"
    by blast
  from v sh have "v = \<lparr>shape = [n, 3, 3, 1], data = data cg\<rparr>"
    by (auto simp: reshape_def size_nd_def Let_def split: if_splits)
  moreover from tb have "g = Block v ?s [?d1, ?d2] props []"
    by (auto simp: TensorBlock_def split: if_splits)
  ultimately show "g = Block \<lparr>shape = [n, 3, 3, 1], data = data cg\<rparr> ?s [?d1, ?d2] props []"
    by simp
qed

lemma cell_gradient_succeeds:
  assumes "shape cg = [n, 3, 3]" and "length (rows props) = 1"
  shows "cell_gradient n cg props =
     Inr (Block \<lparr>shape = [n, 3, 3, 1], data = data cg\<rparr>
                   \<lparr>names = [''sample''], rows = map (\<lambda>s. [int s]) [0..<n]\<rparr>
                   [\<lparr>names = [''direction_1''], rows = [[0], [1], [2]]\<rparr>,
                    \<lparr>names = [''direction_2''], rows = [[0], [1], [2]]\<rparr>]
                   props [])"
  using assms
  by (simp add: cell_gradient_def len_nd_def Labels_sample_rows direction_labels_eq
      reshape_def size_nd_def TensorBlock_def)

lemma cell_gradient_wrong_shape:
  assumes "shape cg = n # ds" and "ds \<noteq> [3, 3]"
  shows "cell_gradient n cg props = Inl (if length ds < 2 then IndexError else ValueError)"
  using assms
  by (cases ds; cases "tl ds") (auto simp add: cell_gradient_def len_nd_def shape_at_def)

lemma positions_gradient_succeeds:
  assumes len: "n = length pg"
    and ne: "pg \<noteq> []"
    and two: "\<forall>b\<in>set pg. \<exists>m. shape b = [m, 3]"
    and props: "length (rows props) = 1"
  shows "positions_gradient n pg props =
     Inr (Block \<lparr>shape = [sum_list (map (\<lambda>b. hd (shape b)) pg), 3, 1],
                     data = concat (map data pg)\<rparr>
                   \<lparr>names = [''sample'', ''structure'', ''atom''], rows = atom_rows n pg\<rparr>
                   [\<lparr>names = [''direction''], rows = [[0], [1], [2]]\<rparr>]
                   props [])"
proof -
  let ?A = "sum_list (map (\<lambda>b. hd (shape b)) pg)"
  from ne obtain a rest where pg: "pg = a # rest" by (cases pg) auto
  from two have tls: "\<forall>b\<in>set pg. shape b \<noteq> [] \<and> tl (shape b) = [3]" by auto
  then have "\<not> list_ex (\<lambda>b. shape b = []) pg"
    and "\<not> list_ex (\<lambda>b. tl (shape b) \<noteq> tl (shape a)) pg"
    using pg by (auto simp: list_ex_iff)
  with pg tls have cat: "concatenate pg = Inr \<lparr>shape = [?A, 3], data = concat (map data pg)\<rparr>"
    by (simp add: concatenate_def)
  have la: "length (atom_rows n pg) = ?A"
    using length_atom_rows [of pg] len by simp
  show ?thesis
    using len la props
    by (simp add: positions_gradient_def cat shape_at_def Labels_atom_rows reshape_def
        size_nd_def direction_labels_eq TensorBlock_def)
qed

lemma add_gradient_Block:
  "add_gradient (Block v s cs p gs) parameter g = Block v s cs p (gs @ [(parameter, g)])"
  by (simp add: add_gradient_def)

lemma properties_to_tensormap_Inr:
  assumes "properties_to_tensormap vals pg cg isp property_name = Inr tm"
  shows "tm = \<lparr>keys = Labels_single,
               blocks = [Block \<lparr>shape = [length vals, 1], data = vals\<rparr>
                  \<lparr>names = [''structure''], rows = map (\<lambda>i. [int i]) [0..<length vals]\<rparr>
                  []
                  \<lparr>names = [property_name], rows = [[0]]\<rparr>
                  ((case pg of None \<Rightarrow> [] | Some p \<Rightarrow>
                     [(''positions'',
                       Block \<lparr>shape = [sum_list (map (\<lambda>b. hd (shape b)) p), 3, 1],
                              data = concat (map data p)\<rparr>
                         \<lparr>names = [''sample'', ''structure'', ''atom''],
                          rows = atom_rows (length vals) p\<rparr>
                         [\<lparr>names = [''direction''], rows = [[0], [1], [2]]\<rparr>]
                         \<lparr>names = [property_name], rows = [[0]]\<rparr> [])]) @
                   (case cg of None \<Rightarrow> [] | Some c \<Rightarrow>
                     [(''cell'',
                       Block \<lparr>shape = [length vals, 3, 3, 1], data = data c\<rparr>
                         \<lparr>names = [''sample''], rows = map (\<lambda>s. [int s]) [0..<length vals]\<rparr>
                         [\<lparr>names = [''direction_1''], rows = [[0], [1], [2]]\<rparr>,
                          \<lparr>names = [''direction_2''], rows = [[0], [1], [2]]\<rparr>]
                         \<lparr>names = [property_name], rows = [[0]]\<rparr> [])]))]\<rparr>"
    and "isp"
    and "\<forall>p. pg = Some p \<longrightarrow> length p = length vals \<and> p \<noteq> []"
    and "\<forall>c. cg = Some c \<longrightarrow> shape c = [length vals, 3, 3]"
proof -
  let ?P = "\<lparr>names = [property_name], rows = [[0]]\<rparr>"
  have pgc: "\<And>n p g. positions_gradient n p ?P = Inr g \<Longrightarrow>
      n = length p \<and> p \<noteq> [] \<and>
      g = Block \<lparr>shape = [sum_list (map (\<lambda>b. hd (shape b)) p), 3, 1],
                  data = concat (map data p)\<rparr>
                \<lparr>names = [''sample'', ''structure'', ''atom''], rows = atom_rows n p\<rparr>
                [\<lparr>names = [''direction''], rows = [[0], [1], [2]]\<rparr>] ?P []"
    using positions_gradient_Inr by blast
  have cgc: "\<And>n c g. cell_gradient n c ?P = Inr g \<Longrightarrow>
      shape c = [n, 3, 3] \<and>
      g = Block \<lparr>shape = [n, 3, 3, 1], data = data c\<rparr>
                \<lparr>names = [''sample''], rows = map (\<lambda>s. [int s]) [0..<n]\<rparr>
                [\<lparr>names = [''direction_1''], rows = [[0], [1], [2]]\<rparr>,
                 \<lparr>names = [''direction_2''], rows = [[0], [1], [2]]\<rparr>] ?P []"
    using cell_gradient_Inr by blast
  from assms show "isp"
    by (auto simp: properties_to_tensormap_def split: if_splits)
  from assms show "\<forall>p. pg = Some p \<longrightarrow> length p = length vals \<and> p \<noteq> []"
    by (cases pg)
       (auto simp: properties_to_tensormap_def Let_def value_block_eq bind_err_Inr_iff
             split: if_splits dest!: pgc)
  from assms show "\<forall>c. cg = Some c \<longrightarrow> shape c = [length vals, 3, 3]"
    by (cases pg; cases cg)
       (auto simp: properties_to_tensormap_def Let_def value_block_eq bind_err_Inr_iff
             add_gradient_Block split: if_splits dest!: cgc)
  from assms show "tm = \<lparr>keys = Labels_single,
               blocks = [Block \<lparr>shape = [length vals, 1], data = vals\<rparr>
                  \<lparr>names = [''structure''], rows = map (\<lambda>i. [int i]) [0..<length vals]\<rparr>
                  []
                  \<lparr>names = [property_name], rows = [[0]]\<rparr>
                  ((case pg of None \<Rightarrow> [] | Some p \<Rightarrow>
                     [(''positions'',
                       Block \<lparr>shape = [sum_list (map (\<lambda>b. hd (shape b)) p), 3, 1],
                              data = concat (map data p)\<rparr>
                         \<lparr>names = [''sample'', ''structure'', ''atom''],
                          rows = atom_rows (length vals) p\<rparr>
                         [\<lparr>names = [''direction''], rows = [[0], [1], [2]]\<rparr>]
                         \<lparr>names = [property_name], rows = [[0]]\<rparr> [])]) @
                   (case cg of None \<Rightarrow> [] | Some c \<Rightarrow>
                     [(''cell'',
                       Block \<lparr>shape = [length vals, 3, 3, 1], data = data c\<rparr>
                         \<lparr>names = [''sample''], rows = map (\<lambda>s. [int s]) [0..<length vals]\<rparr>
                         [\<lparr>names = [''direction_1''], rows = [[0], [1], [2]]\<rparr>,
                          \<lparr>names = [''direction_2''], rows = [[0], [1], [2]]\<rparr>]
                         \<lparr>names = [property_name], rows = [[0]]\<rparr> [])]))]\<rparr>"
    by (cases pg; cases cg)
       (auto simp: properties_to_tensormap_def Let_def value_block_eq bind_err_Inr_iff
             add_gradient_Block TensorMap_def Labels_single_def
             split: if_splits dest!: pgc cgc)
qed

lemma concatenate_cases:
  "concatenate arrs = Inl ValueError \<or>
   (arrs \<noteq> [] \<and> (\<forall>b\<in>set arrs. shape b \<noteq> [] \<and> tl (shape b) = tl (shape (hd arrs))) \<and>
    concatenate arrs = Inr \<lparr>shape = sum_list (map (\<lambda>b. hd (shape b)) arrs) # tl (shape (hd arrs)),
                            data = concat (map data arrs)\<rparr>)"
  by (cases arrs) (auto simp: concatenate_def list_ex_iff)

lemma positions_gradient_length_mismatch:
  "n \<noteq> length pg \<Longrightarrow> positions_gradient n pg props = Inl ValueError"
  by (simp add: positions_gradient_def)

lemma positions_gradient_wrong_columns:
  assumes two: "\<forall>b\<in>set pg. length (shape b) = 2"
    and bad: "\<exists>b\<in>set pg. shape b ! 1 \<noteq> 3"
  shows "positions_gradient n pg props = Inl ValueError"
proof (cases "n = length pg")
  case False
  then show ?thesis by (rule positions_gradient_length_mismatch)
next
  case True
  from concatenate_cases [of pg] show ?thesis
  proof
    assume "concatenate pg = Inl ValueError"
    with True show ?thesis by (simp add: positions_gradient_def)
  next
    assume ok: "pg \<noteq> [] \<and> (\<forall>b\<in>set pg. shape b \<noteq> [] \<and> tl (shape b) = tl (shape (hd pg))) \<and>
      concatenate pg = Inr \<lparr>shape = sum_list (map (\<lambda>b. hd (shape b)) pg) # tl (shape (hd pg)),
                            data = concat (map data pg)\<rparr>"
    have col: "tl (shape b) = [shape b ! 1]" if "b \<in> set pg" for b
    proof -
      from two that have "length (shape b) = 2" by blast
      then show ?thesis
        by (cases "shape b"; cases "tl (shape b)") auto
    qed
    from bad obtain b where b: "b \<in> set pg" and b3: "shape b ! 1 \<noteq> 3" by blast
    from ok b have "tl (shape b) = tl (shape (hd pg))" by blast
    with col [OF b] have "tl (shape (hd pg)) = [shape b ! 1]" by simp
    with ok b3 True show ?thesis
      by (simp add: positions_gradient_def shape_at_def)
  qed
qed

lemma properties_to_tensormap_positions_error:
  "positions_gradient (length vals) pg \<lparr>names = [property_name], rows = [[0]]\<rparr> = Inl e \<Longrightarrow>
   properties_to_tensormap vals (Some pg) cg True property_name = Inl e"
  by (simp add: properties_to_tensormap_def value_block_eq)

lemma properties_to_tensormap_succeeds:
  assumes len: "length pg = length vals"
    and ne: "pg \<noteq> []"
    and two: "\<forall>b\<in>set pg. \<exists>m. shape b = [m, 3]"
    and cell: "case cg of None \<Rightarrow> True | Some c \<Rightarrow> shape c = [length vals, 3, 3]"
  shows "\<exists>tm. properties_to_tensormap vals (Some pg) cg True property_name = Inr tm"
proof -
  have pg: "\<exists>g. positions_gradient (length vals) pg \<lparr>names = [property_name], rows = [[0]]\<rparr>
      = Inr g"
    using positions_gradient_succeeds [OF len [symmetric] ne two,
        of "\<lparr>names = [property_name], rows = [[0]]\<rparr>"]
    by simp
  show ?thesis
  proof (cases cg)
    case None
    with pg show ?thesis
      by (auto simp: properties_to_tensormap_def Let_def value_block_eq add_gradient_Block
          TensorMap_def Labels_single_def)
  next
    case (Some c)
    with cell have "shape c = [length vals, 3, 3]" by simp
    from cell_gradient_succeeds [OF this, of "\<lparr>names = [property_name], rows = [[0]]\<rparr>"]
    have "\<exists>g. cell_gradient (length vals) c \<lparr>names = [property_name], rows = [[0]]\<rparr> = Inr g"
      by simp
    with pg Some show ?thesis
      by (auto simp: properties_to_tensormap_def Let_def value_block_eq add_gradient_Block
          TensorMap_def Labels_single_def)
  qed
qed

lemma cell_gradients_three_dimensional_mismatch:
  assumes "shape c = length vals # p # q # ds" and "p # q # ds \<noteq> [3, 3]"
  shows "properties_to_tensormap vals None (Some c) True property_name = Inl ValueError"
  using cell_gradient_wrong_shape [OF assms, of "\<lparr>names = [property_name], rows = [[0]]\<rparr>"]
  by (simp add: properties_to_tensormap_def value_block_eq)

lemma cell_gradients_accepted:
  assumes "shape c = [length vals, 3, 3]"
  shows "properties_to_tensormap vals None (Some c) True property_name =
     Inr \<lparr>keys = \<lparr>names = [''_''], rows = [[0]]\<rparr>,
          blocks = [Block \<lparr>shape = [length vals, 1], data = vals\<rparr>
            \<lparr>names = [''structure''], rows = map (\<lambda>i. [int i]) [0..<length vals]\<rparr>
            []
            \<lparr>names = [property_name], rows = [[0]]\<rparr>
            [(''cell'',
              Block \<lparr>shape = [length vals, 3, 3, 1], data = data c\<rparr>
                \<lparr>names = [''sample''], rows = map (\<lambda>s. [int s]) [0..<length vals]\<rparr>
                [\<lparr>names = [''direction_1''], rows = [[0], [1], [2]]\<rparr>,
                 \<lparr>names = [''direction_2''], rows = [[0], [1], [2]]\<rparr>]
                \<lparr>names = [property_name], rows = [[0]]\<rparr> [])]]\<rparr>"
  using assms
    cell_gradient_succeeds [of c "length vals" "\<lparr>names = [property_name], rows = [[0]]\<rparr>"]
  by (simp add: properties_to_tensormap_def value_block_eq add_gradient_Block TensorMap_def
      Labels_single_def)

lemma cell_gradients_too_few_dimensions:
  assumes "shape c = length vals # ds" and "length ds < 2"
  shows "properties_to_tensormap vals None (Some c) True property_name = Inl IndexError"
proof -
  from assms have "ds \<noteq> [3, 3]" by auto
  from cell_gradient_wrong_shape [OF assms(1) this,
      of "\<lparr>names = [property_name], rows = [[0]]\<rparr>"] assms(2)
  show ?thesis
    by (simp add: properties_to_tensormap_def value_block_eq)
qed

lemma positions_gradients_two_dimensional_mismatch:
  "(length pg \<noteq> length vals \<longrightarrow>
      properties_to_tensormap vals (Some pg) cg True property_name = Inl ValueError) \<and>
   ((\<forall>b\<in>set pg. length (shape b) = 2) \<and> (\<exists>b\<in>set pg. shape b ! 1 \<noteq> 3) \<longrightarrow>
      properties_to_tensormap vals (Some pg) cg True property_name = Inl ValueError)"
proof (intro conjI impI)
  assume "length pg \<noteq> length vals"
  then have "positions_gradient (length vals) pg \<lparr>names = [property_name], rows = [[0]]\<rparr>
      = Inl ValueError"
    by (intro positions_gradient_length_mismatch) simp
  then show "properties_to_tensormap vals (Some pg) cg True property_name = Inl ValueError"
    by (rule properties_to_tensormap_positions_error)
next
  assume "(\<forall>b\<in>set pg. length (shape b) = 2) \<and> (\<exists>b\<in>set pg. shape b ! 1 \<noteq> 3)"
  then have "positions_gradient (length vals) pg \<lparr>names = [property_name], rows = [[0]]\<rparr>
      = Inl ValueError"
    by (intro positions_gradient_wrong_columns) simp_all
  then show "properties_to_tensormap vals (Some pg) cg True property_name = Inl ValueError"
    by (rule properties_to_tensormap_positions_error)
qed

lemma positions_gradients_three_dimensional_accepted:
  "\<exists>tm. properties_to_tensormap [1 :: real]
          (Some [\<lparr>shape = [1, 3, 1], data = [1, 2, 3]\<rparr>]) None True ''energy'' = Inr tm"
  by (simp add: properties_to_tensormap_def value_block_eq positions_gradient_def
      concatenate_def shape_at_def Labels_def np_array_def reshape_def size_nd_def
      direction_labels_eq TensorBlock_def TensorMap_def Labels_single_def atom_rows_def
      add_gradient_def)

section \<open>Properties of the model of rmse\<close>

lemma sum_list_squared_differences_self:
  "sum_list (map (\<lambda>(x, y). (x - y)\<^sup>2) (zip xs xs)) = (0 :: real)"
  by (induction xs) simp_all

lemma rmse_block_self:
  assumes "select b parameter_key = Inr a" and "flatten a \<noteq> []"
  shows "rmse_block b b parameter_key = Inr (Some 0)"
  using assms
  by (simp add: rmse_block_def mean_def sum_list_squared_differences_self)

lemma collect_constant:
  "\<forall>r\<in>set rs. r = Inr c \<Longrightarrow> collect rs = Inr (replicate (length rs) c)"
  by (induction rs) simp_all

section \<open>The claims about properties_to_tensormap\<close>

text \<open>
  C1. For every sequence \<open>vals\<close> of \<open>N\<close> scalars, \<^verbatim>\<open>properties_to_tensormap(values)\<close>
  returns a tensor map with exactly one key and one block: the values are the
  \<open>(N, 1)\<close> array of the input, the samples have the single column \<^verbatim>\<open>structure\<close> with
  the rows \<open>0, ..., N - 1\<close> in order, the properties have the single column
  \<^verbatim>\<open>property_name\<close> with the single row \<open>(0,)\<close>, and there is no component and no
  gradient.
\<close>

theorem values_only_tensormap:
  "properties_to_tensormap vals None None True property_name =
     Inr \<lparr>keys = \<lparr>names = [''_''], rows = [[0]]\<rparr>,
          blocks = [Block \<lparr>shape = [length vals, 1], data = vals\<rparr>
                          \<lparr>names = [''structure''],
                           rows = map (\<lambda>i. [int i]) [0..<length vals]\<rparr>
                          []
                          \<lparr>names = [property_name], rows = [[0]]\<rparr>
                          []]\<rparr>"
  by (simp add: properties_to_tensormap_def value_block_eq TensorMap_def Labels_single_def)

text \<open>
  C2. With \<^verbatim>\<open>positions_gradients\<close> given, every call that passes the checks returns a
  block with a gradient named \<^verbatim>\<open>positions\<close>: its values are the per-structure arrays
  concatenated in the order of the structures, with one row per atom; its samples are
  the rows \<open>(s, s, a)\<close> under the names \<^verbatim>\<open>sample\<close>, \<^verbatim>\<open>structure\<close>, \<^verbatim>\<open>atom\<close>, for the
  structures \<open>s\<close> in order and, within a structure, its atoms \<open>a\<close> in order; its only
  component is \<^verbatim>\<open>direction\<close> with the entries 0, 1, 2. The number of atoms of structure
  \<open>s\<close> is \<^verbatim>\<open>len(positions_gradients[s])\<close>, the first dimension of its array, and may
  be 0. The calls that pass the checks include every call with at least one structure,
  one \<open>(atoms, 3)\<close> array per value, and cell gradients that are absent or of shape
  \<open>(N, 3, 3)\<close>.
\<close>

theorem positions_gradient_attached:
  "(length pg = length vals \<and> pg \<noteq> [] \<and> (\<forall>b\<in>set pg. \<exists>m. shape b = [m, 3]) \<and>
    (case cg of None \<Rightarrow> True | Some c \<Rightarrow> shape c = [length vals, 3, 3])
    \<longrightarrow> (\<exists>tm. properties_to_tensormap vals (Some pg) cg True property_name = Inr tm)) \<and>
   (\<forall>tm. properties_to_tensormap vals (Some pg) cg True property_name = Inr tm \<longrightarrow>
      length pg = length vals \<and>
      (\<exists>b. blocks tm = [b] \<and>
        gradient b ''positions'' =
          Some (Block \<lparr>shape = [sum_list (map (\<lambda>a. hd (shape a)) pg), 3, 1],
                       data = concat (map data pg)\<rparr>
                      \<lparr>names = [''sample'', ''structure'', ''atom''],
                       rows = concat (map (\<lambda>s. map (\<lambda>a. [int s, int s, int a])
                                                    [0..<hd (shape (pg ! s))])
                                          [0..<length pg])\<rparr>
                      [\<lparr>names = [''direction''], rows = [[0], [1], [2]]\<rparr>]
                      \<lparr>names = [property_name], rows = [[0]]\<rparr>
                      [])))"
proof (intro conjI impI allI)
  assume "length pg = length vals \<and> pg \<noteq> [] \<and> (\<forall>b\<in>set pg. \<exists>m. shape b = [m, 3]) \<and>
    (case cg of None \<Rightarrow> True | Some c \<Rightarrow> shape c = [length vals, 3, 3])"
  then show "\<exists>tm. properties_to_tensormap vals (Some pg) cg True property_name = Inr tm"
    by (intro properties_to_tensormap_succeeds) simp_all
next
  fix tm
  assume r: "properties_to_tensormap vals (Some pg) cg True property_name = Inr tm"
  from properties_to_tensormap_Inr(3) [OF r] show len: "length pg = length vals" by simp
  from properties_to_tensormap_Inr(1) [OF r] len
  show "\<exists>b. blocks tm = [b] \<and>
        gradient b ''positions'' =
          Some (Block \<lparr>shape = [sum_list (map (\<lambda>a. hd (shape a)) pg), 3, 1],
                       data = concat (map data pg)\<rparr>
                      \<lparr>names = [''sample'', ''structure'', ''atom''],
                       rows = concat (map (\<lambda>s. map (\<lambda>a. [int s, int s, int a])
                                                    [0..<hd (shape (pg ! s))])
                                          [0..<length pg])\<rparr>
                      [\<lparr>names = [''direction''], rows = [[0], [1], [2]]\<rparr>]
                      \<lparr>names = [property_name], rows = [[0]]\<rparr>
                      [])"
    by (simp add: gradient_def atom_rows_def)
qed

theorem positions_gradient_attached_witness:
  "\<exists>tm b. properties_to_tensormap [1, 2, 3 :: real]
        (Some [\<lparr>shape = [2, 3], data = [1, 2, 3, 4, 5, 6]\<rparr>,
               \<lparr>shape = [0, 3], data = []\<rparr>,
               \<lparr>shape = [1, 3], data = [7, 8, 9]\<rparr>]) None True ''energy'' = Inr tm \<and>
     blocks tm = [b] \<and>
     gradient b ''positions'' =
       Some (Block \<lparr>shape = [3, 3, 1], data = [1, 2, 3, 4, 5, 6, 7, 8, 9]\<rparr>
                   \<lparr>names = [''sample'', ''structure'', ''atom''],
                    rows = [[0, 0, 0], [0, 0, 1], [2, 2, 0]]\<rparr>
                   [\<lparr>names = [''direction''], rows = [[0], [1], [2]]\<rparr>]
                   \<lparr>names = [''energy''], rows = [[0]]\<rparr>
                   [])"
proof -
  let ?pg = "[\<lparr>shape = [2, 3], data = [1, 2, 3, 4, 5, 6 :: real]\<rparr>,
              \<lparr>shape = [0, 3], data = []\<rparr>,
              \<lparr>shape = [1, 3], data = [7, 8, 9]\<rparr>]"
  note claim = positions_gradient_attached [of ?pg "[1, 2, 3]" None "''energy''"]
  have "length ?pg = length [1, 2, 3 :: real] \<and> ?pg \<noteq> [] \<and>
    (\<forall>b\<in>set ?pg. \<exists>m. shape b = [m, 3]) \<and>
    (case None :: real ndarray option of None \<Rightarrow> True
     | Some c \<Rightarrow> shape c = [length [1, 2, 3 :: real], 3, 3])"
    by simp
  with claim obtain tm where
    tm: "properties_to_tensormap [1, 2, 3] (Some ?pg) None True ''energy'' = Inr tm"
    by blast
  with claim obtain b where "blocks tm = [b]" and
    "gradient b ''positions'' =
          Some (Block \<lparr>shape = [sum_list (map (\<lambda>a. hd (shape a)) ?pg), 3, 1],
                       data = concat (map data ?pg)\<rparr>
                      \<lparr>names = [''sample'', ''structure'', ''atom''],
                       rows = concat (map (\<lambda>s. map (\<lambda>a. [int s, int s, int a])
                                                    [0..<hd (shape (?pg ! s))])
                                          [0..<length ?pg])\<rparr>
                      [\<lparr>names = [''direction''], rows = [[0], [1], [2]]\<rparr>]
                      \<lparr>names = [''energy''], rows = [[0]]\<rparr>
                      [])"
    by blast
  then show ?thesis using tm
    by (intro exI [of _ tm] exI [of _ b]) (simp add: upt_rec)
qed

text \<open>
  C3. The claim is that, with \<^verbatim>\<open>positions_gradients\<close> given, the call fails with
  \<^verbatim>\<open>ValueError\<close> when the number of gradient arrays differs from the number of values,
  and whenever the trailing dimension of the concatenated arrays is not 3. The first
  part holds, and so does the second for two-dimensional arrays (lemma
  \<open>positions_gradients_two_dimensional_mismatch\<close>). The check of line 126 reads
  \<^verbatim>\<open>shape[1]\<close>, though: for one-dimensional arrays, here one array of 4 entries, the
  concatenated array has no second dimension and the read raises \<^verbatim>\<open>IndexError\<close>
  instead of the \<^verbatim>\<open>ValueError\<close> of the docstring.
\<close>

theorem positions_gradient_one_dimensional_raises_IndexError:
  "properties_to_tensormap [1 :: real]
     (Some [\<lparr>shape = [4], data = [1, 2, 3, 4]\<rparr>]) None True ''energy'' = Inl IndexError"
  by (simp add: properties_to_tensormap_def value_block_eq positions_gradient_def
      concatenate_def shape_at_def)

text \<open>
  C4. The claim is that a cell-gradient array whose trailing dimensions are not
  \<open>(3, 3)\<close> always fails with \<^verbatim>\<open>ValueError\<close>. For an array with fewer than three
  dimensions the code does not: the comparison \<^verbatim>\<open>shape[1:] != (3, 3)\<close> holds, and the
  message of the \<^verbatim>\<open>ValueError\<close> reads \<^verbatim>\<open>shape[2]\<close>, which raises \<^verbatim>\<open>IndexError\<close>. One
  structure with a stress of six entries is such an input. (Lemmas
  \<open>cell_gradients_three_dimensional_mismatch\<close> and \<open>cell_gradients_accepted\<close> give the
  behaviour for three and more dimensions.)
\<close>

theorem cell_gradient_two_dimensional_raises_IndexError:
  "properties_to_tensormap [1::real] None
     (Some \<lparr>shape = [1, 6], data = [1, 2, 3, 4, 5, 6]\<rparr>) True ''energy'' = Inl IndexError"
  by (simp add: properties_to_tensormap_def value_block_eq cell_gradient_def len_nd_def
      shape_at_def)

text \<open>
  C5. In every tensor map that \<^verbatim>\<open>properties_to_tensormap\<close> returns, the properties of
  each gradient block are equal, as labels with their names and rows, to the properties
  of the block the gradient is attached to.
\<close>

theorem gradient_properties_equal_parent:
  assumes "properties_to_tensormap vals pg cg isp property_name = Inr tm"
  shows "\<forall>b\<in>set (blocks tm). \<forall>(parameter, g)\<in>set (block_gradients b).
           block_properties g = block_properties b"
  using properties_to_tensormap_Inr(1) [OF assms]
  by (cases pg; cases cg) simp_all

theorem gradient_properties_equal_parent_witness:
  "\<exists>tm b p c. properties_to_tensormap [1 :: real]
        (Some [\<lparr>shape = [1, 3], data = [7, 8, 9]\<rparr>])
        (Some \<lparr>shape = [1, 3, 3], data = [1, 2, 3, 4, 5, 6, 7, 8, 9]\<rparr>) True ''energy''
        = Inr tm \<and>
     blocks tm = [b] \<and> block_gradients b = [(''positions'', p), (''cell'', c)] \<and>
     block_properties p = block_properties b \<and> block_properties c = block_properties b"
proof -
  let ?pg = "[\<lparr>shape = [1, 3], data = [7, 8, 9 :: real]\<rparr>]"
  let ?cg = "\<lparr>shape = [1, 3, 3], data = [1, 2, 3, 4, 5, 6, 7, 8, 9 :: real]\<rparr>"
  have "\<exists>tm. properties_to_tensormap [1] (Some ?pg) (Some ?cg) True ''energy'' = Inr tm"
    by (rule properties_to_tensormap_succeeds) simp_all
  then obtain tm where
    tm: "properties_to_tensormap [1] (Some ?pg) (Some ?cg) True ''energy'' = Inr tm" ..
  from properties_to_tensormap_Inr(1) [OF tm] obtain b p c where
    b: "blocks tm = [b]" and g: "block_gradients b = [(''positions'', p), (''cell'', c)]"
    by simp
  from gradient_properties_equal_parent [OF tm] b g
  have "block_properties p = block_properties b \<and> block_properties c = block_properties b"
    by simp
  with tm b g show ?thesis by blast
qed

text \<open>
  C6. \<^verbatim>\<open>properties_to_tensormap\<close> is atomic: for every input the call either raises an
  error, and then returns nothing, or returns the full tensor map, that is the block of
  the values together with every gradient that was asked for, each with its values,
  samples, components and properties. The tensor map is constructed by the last
  statement, after all the checks; what the function builds before a failing check is
  local and is never returned.
\<close>

theorem properties_to_tensormap_atomic:
  "(\<exists>e. properties_to_tensormap vals pg cg isp property_name = Inl e) \<or>
   properties_to_tensormap vals pg cg isp property_name =
     Inr \<lparr>keys = \<lparr>names = [''_''], rows = [[0]]\<rparr>,
          blocks = [Block \<lparr>shape = [length vals, 1], data = vals\<rparr>
            \<lparr>names = [''structure''], rows = map (\<lambda>i. [int i]) [0..<length vals]\<rparr>
            []
            \<lparr>names = [property_name], rows = [[0]]\<rparr>
            ((case pg of None \<Rightarrow> [] | Some p \<Rightarrow>
               [(''positions'',
                 Block \<lparr>shape = [sum_list (map (\<lambda>b. hd (shape b)) p), 3, 1],
                        data = concat (map data p)\<rparr>
                   \<lparr>names = [''sample'', ''structure'', ''atom''],
                    rows = concat (map (\<lambda>s. map (\<lambda>a. [int s, int s, int a])
                                                 [0..<hd (shape (p ! s))])
                                       [0..<length vals])\<rparr>
                   [\<lparr>names = [''direction''], rows = [[0], [1], [2]]\<rparr>]
                   \<lparr>names = [property_name], rows = [[0]]\<rparr> [])]) @
             (case cg of None \<Rightarrow> [] | Some c \<Rightarrow>
               [(''cell'',
                 Block \<lparr>shape = [length vals, 3, 3, 1], data = data c\<rparr>
                   \<lparr>names = [''sample''], rows = map (\<lambda>s. [int s]) [0..<length vals]\<rparr>
                   [\<lparr>names = [''direction_1''], rows = [[0], [1], [2]]\<rparr>,
                    \<lparr>names = [''direction_2''], rows = [[0], [1], [2]]\<rparr>]
                   \<lparr>names = [property_name], rows = [[0]]\<rparr> [])]))]\<rparr>"
proof (cases "properties_to_tensormap vals pg cg isp property_name")
  case (Inl e)
  then show ?thesis by simp
next
  case (Inr tm)
  from properties_to_tensormap_Inr(1) [OF Inr, unfolded atom_rows_def Labels_single_def] Inr
  show ?thesis by simp
qed

text \<open>
  C9. With \<^verbatim>\<open>is_structure_property = False\<close> the call fails with
  \<^verbatim>\<open>NotImplementedError\<close>, whatever the other arguments are.
\<close>

theorem not_structure_property_unsupported:
  "properties_to_tensormap vals pg cg False property_name = Inl NotImplementedError"
  by (simp add: properties_to_tensormap_def)

text \<open>
  C10. With \<^verbatim>\<open>values = []\<close> and \<^verbatim>\<open>positions_gradients = []\<close> the length check passes,
  but \<^verbatim>\<open>np.concatenate\<close> raises \<^verbatim>\<open>ValueError\<close> on the empty sequence: the call
  returns no tensor map, whatever the cell gradients and the property name are.
\<close>

theorem empty_positions_gradients_fail:
  "properties_to_tensormap [] (Some []) cg is_structure_property property_name =
     Inl (if is_structure_property then ValueError else NotImplementedError)"
  by (simp add: properties_to_tensormap_def value_block_eq positions_gradient_def
      concatenate_def)

section \<open>The claim about rmse\<close>

text \<open>
  C8. The claim is that \<^verbatim>\<open>rmse(X, X, parameter_key)\<close> is 0 for every key of every valid
  tensor map \<open>X\<close>. It fails for a block whose selected array is empty: the tensor map
  that \<^verbatim>\<open>properties_to_tensormap\<close> returns for no structure at all has such a block, and
  the mean over no element has no value.
\<close>

theorem rmse_reflexive_counterexample:
  "properties_to_tensormap ([] :: real list) None None True ''energy'' =
     Inr \<lparr>keys = \<lparr>names = [''_''], rows = [[0]]\<rparr>,
          blocks = [Block \<lparr>shape = [0, 1], data = []\<rparr>
                          \<lparr>names = [''structure''], rows = []\<rparr> []
                          \<lparr>names = [''energy''], rows = [[0]]\<rparr> []]\<rparr> \<and>
   rmse \<lparr>keys = \<lparr>names = [''_''], rows = [[0]]\<rparr>,
         blocks = [Block \<lparr>shape = [0, 1], data = []\<rparr>
                         \<lparr>names = [''structure''], rows = []\<rparr> []
                         \<lparr>names = [''energy''], rows = [[0]]\<rparr> []]\<rparr>
        \<lparr>keys = \<lparr>names = [''_''], rows = [[0]]\<rparr>,
         blocks = [Block \<lparr>shape = [0, 1], data = []\<rparr>
                         \<lparr>names = [''structure''], rows = []\<rparr> []
                         \<lparr>names = [''energy''], rows = [[0]]\<rparr> []]\<rparr>
        ''values'' = Inr [None] \<and>
   rmse \<lparr>keys = \<lparr>names = [''_''], rows = [[0]]\<rparr>,
         blocks = [Block \<lparr>shape = [0, 1], data = []\<rparr>
                         \<lparr>names = [''structure''], rows = []\<rparr> []
                         \<lparr>names = [''energy''], rows = [[0]]\<rparr> []]\<rparr>
        \<lparr>keys = \<lparr>names = [''_''], rows = [[0]]\<rparr>,
         blocks = [Block \<lparr>shape = [0, 1], data = []\<rparr>
                         \<lparr>names = [''structure''], rows = []\<rparr> []
                         \<lparr>names = [''energy''], rows = [[0]]\<rparr> []]\<rparr>
        ''values'' \<noteq> Inr [Some 0]"
  by (simp add: properties_to_tensormap_def value_block_eq TensorMap_def Labels_single_def
      rmse_def block_of_def rmse_block_def select_def flatten_def mean_def)

text \<open>
  C8, as amended. For a tensor map \<open>X\<close> with one block per key and distinct keys, and a
  \<^verbatim>\<open>parameter_key\<close> that selects a non-empty array in every block of \<open>X\<close>,
  \<^verbatim>\<open>rmse(X, X, parameter_key)\<close> returns one scalar per key, in the order of the keys,
  and every one of them is 0.
\<close>

theorem rmse_reflexive:
  assumes len: "length (rows (keys X)) = length (blocks X)"
    and dist: "distinct (rows (keys X))"
    and sel: "\<forall>b\<in>set (blocks X). \<exists>a. select b parameter_key = Inr a \<and> flatten a \<noteq> []"
  shows "rmse X X parameter_key = Inr (replicate (length (rows (keys X))) (Some 0))"
proof -
  let ?f = "\<lambda>(k, t). case block_of X k of
                        None \<Rightarrow> Inl KeyMismatch
                      | Some p \<Rightarrow> rmse_block t p parameter_key"
  have "?f kt = Inr (Some 0)" if kt: "kt \<in> set (zip (rows (keys X)) (blocks X))" for kt
  proof -
    obtain k t where eq: "kt = (k, t)" by (cases kt)
    from kt eq obtain i where i: "i < length (blocks X)"
      and k: "k = rows (keys X) ! i" and t: "t = blocks X ! i"
      using len by (auto simp: in_set_zip)
    from map_of_zip_nth [OF len dist i] k t have "block_of X k = Some t"
      by (simp add: block_of_def)
    moreover from i t have "t \<in> set (blocks X)" by simp
    with sel obtain a where "select t parameter_key = Inr a" and "flatten a \<noteq> []" by blast
    then have "rmse_block t t parameter_key = Inr (Some 0)" by (rule rmse_block_self)
    ultimately show ?thesis using eq by simp
  qed
  then have "collect (map ?f (zip (rows (keys X)) (blocks X))) =
      Inr (replicate (length (map ?f (zip (rows (keys X)) (blocks X)))) (Some 0))"
    by (intro collect_constant) auto
  with len show ?thesis by (simp add: rmse_def)
qed

theorem rmse_reflexive_witness:
  "rmse \<lparr>keys = Labels_single,
         blocks = [Block \<lparr>shape = [1, 1], data = [5 / 2]\<rparr>
                     \<lparr>names = [''structure''], rows = [[0]]\<rparr> []
                     \<lparr>names = [''energy''], rows = [[0]]\<rparr>
                     [(''positions'',
                       Block \<lparr>shape = [1, 3, 1], data = [7, 8, 9]\<rparr>
                         \<lparr>names = [''sample'', ''structure'', ''atom''], rows = [[0, 0, 0]]\<rparr>
                         [\<lparr>names = [''direction''], rows = [[0], [1], [2]]\<rparr>]
                         \<lparr>names = [''energy''], rows = [[0]]\<rparr> [])]]\<rparr>
        \<lparr>keys = Labels_single,
         blocks = [Block \<lparr>shape = [1, 1], data = [5 / 2]\<rparr>
                     \<lparr>names = [''structure''], rows = [[0]]\<rparr> []
                     \<lparr>names = [''energy''], rows = [[0]]\<rparr>
                     [(''positions'',
                       Block \<lparr>shape = [1, 3, 1], data = [7, 8, 9]\<rparr>
                         \<lparr>names = [''sample'', ''structure'', ''atom''], rows = [[0, 0, 0]]\<rparr>
                         [\<lparr>names = [''direction''], rows = [[0], [1], [2]]\<rparr>]
                         \<lparr>names = [''energy''], rows = [[0]]\<rparr> [])]]\<rparr>
        ''positions'' = Inr [Some 0]"
  by (rule rmse_reflexive [THEN trans])
     (simp_all add: Labels_single_def select_def gradient_def flatten_def)

end
